theory Spec2Isabelle
  imports Main
begin

section \<open>The Reality Modeling job script (context\_capture\_job.py)\<close>

text \<open>
  The script drives a remote processing job: it uploads two local inputs unless the
  reference table already knows them, creates and submits a job, polls the job until it
  stops, and downloads the declared outputs. The functions of the script are embedded
  below. Everything the script does to the outside (calls of the service objects, prints,
  sleeps) is recorded, in order, in a trace of events; the answers of the service objects
  are parameters of the model. A call of \<open>exit(code)\<close> ends the run with the outcome
  \<open>Exit code\<close>.
\<close>

subsection \<open>Values of the reality\_apis package used by the script\<close>

text \<open>
  Modelled from the spec: the class ReturnValue of reality\_apis.utils is not among the
  sources. The script reads the result (here \<open>ret_value\<close>) and the error text of such
  an object and calls \<open>is_error()\<close>; a result is an error exactly when it carries an error
  text.
\<close>

datatype 'a ReturnValue = ReturnValue (ret_value: 'a) (error: string)

definition is_error :: "'a ReturnValue \<Rightarrow> bool" where
  "is_error r = (error r \<noteq> [])"

text \<open>
  Modelled from the spec: the enumeration JobState of reality\_apis.utils is not among the
  sources. Its seven members named by the script are constructors of their own; every
  other member is \<open>OtherState\<close> with its raw name.
\<close>

datatype JobState =
    SUCCESS | Completed | Over
  | ACTIVE | Running
  | CANCELLED | FAILED
  | OtherState string

text \<open>
  Modelled from the spec: the snapshot returned by a status query, with the three fields
  the script reads (\<open>state\<close>, \<open>progress\<close>, \<open>step\<close>).
\<close>

datatype JobProgress = JobProgress (state: JobState) (progress: int) (step: string)

text \<open>
  Modelled from the spec: RealityDataType of reality\_apis.utils is not among the sources;
  the member named by the script, and one more for the others.
\<close>

datatype RealityDataType = CCImageCollection | CCOrientations

text \<open>
  Modelled from the spec: the class ReferenceTable of reality\_apis.DataTransfer.references
  is not among the sources. It is a mapping from local paths to cloud ids with unique
  keys; \<open>add_reference\<close> fails if the local path is already present and inserts otherwise;
  \<open>get_cloud_id_from_local_path\<close> fails on a missing path. \<open>add_reference\<close> returns
  the table after the call together with its ReturnValue.
\<close>

type_synonym ReferenceTable = "string \<rightharpoonup> string"

definition has_local_path :: "ReferenceTable \<Rightarrow> string \<Rightarrow> bool" where
  "has_local_path references local_path = (references local_path \<noteq> None)"

definition add_reference ::
  "ReferenceTable \<Rightarrow> string \<Rightarrow> string \<Rightarrow> ReferenceTable \<times> bool ReturnValue" where
  "add_reference references local_path cloud_id =
     (if has_local_path references local_path
      then (references, ReturnValue False ''local path already in the reference table'')
      else (references(local_path \<mapsto> cloud_id), ReturnValue True []))"


subsection \<open>Events and outcomes\<close>

text \<open>
  \<open>Print args\<close> is a call of \<open>print\<close> with the given string arguments.
  \<open>PrintProgress p s\<close> is the line \<open>print(f"Progress: {str(p)}%, step: {s}")\<close>, the
  progress observation of the poller. \<open>PrintDownloaded t ret\<close> is
  \<open>print(f"Downloaded {t} output:", ret)\<close>, which prints the result object itself. The
  other events are the calls of the service objects with their arguments; \<open>Save\<close> has
  the table that is written and the result of the call as well.
\<close>

datatype event =
    Print "string list"
  | PrintProgress int string
  | PrintDownloaded string "bool ReturnValue"
  | Sleep nat
  | Load string
  | UploadRealityData string string RealityDataType string
  | UploadCCOrientation string string string ReferenceTable
  | AddReference string string
  | Save string ReferenceTable "bool ReturnValue"
  | GetJobProgress string
  | GetJobProperties string
  | DownloadRealityData string string string

datatype 'a outcome = Exit int | Return 'a

subsection \<open>tracking\_job\_progress\<close>

text \<open>
  The loop \<open>while True\<close> of tracking\_job\_progress (lines 151 to 175). The service is the
  sequence of its answers: \<open>get_job_progress k\<close> is the answer to the query number \<open>k\<close>
  (counted from 0). The loop state is the number of queries made so far and the trace so
  far. The loop need not end, so it is a partial function: \<open>None\<close> is a run that polls
  forever. \<open>break\<close> ends the loop with \<open>Return ()\<close>.
\<close>

partial_function (option) tracking_job_progress_loop ::
  "(nat \<Rightarrow> JobProgress ReturnValue) \<Rightarrow> string \<Rightarrow> nat \<Rightarrow> event list \<Rightarrow>
     (event list \<times> unit outcome) option" where
  "tracking_job_progress_loop get_job_progress job_id k tr =
     (let progress_ret = get_job_progress k;
          tr1 = tr @ [GetJobProgress job_id]
      in if is_error progress_ret
         then Some (tr1 @ [Print [''Error while getting progress:'', error progress_ret]], Exit 1)
         else
           let job_progress = ret_value progress_ret
           in if state job_progress = SUCCESS
                 \<or> state job_progress = Completed
                 \<or> state job_progress = Over
              then Some (tr1, Return ())
              else if state job_progress = ACTIVE
                      \<or> state job_progress = Running
              then tracking_job_progress_loop get_job_progress job_id (Suc k)
                     (tr1 @ [PrintProgress (progress job_progress) (step job_progress), Sleep 60])
              else if state job_progress = CANCELLED
              then Some (tr1 @ [Print [''Job cancelled'']], Exit 0)
              else if state job_progress = FAILED
              then Some (tr1 @ [Print [''Job Failed''],
                                PrintProgress (progress job_progress) (step job_progress)], Exit 1)
              else tracking_job_progress_loop get_job_progress job_id (Suc k) (tr1 @ [Sleep 60]))"

text \<open>
  tracking\_job\_progress: the loop from an empty trace, then \<open>print("Job done")\<close> when the
  loop was left by \<open>break\<close>.
\<close>

definition tracking_job_progress ::
  "(nat \<Rightarrow> JobProgress ReturnValue) \<Rightarrow> string \<Rightarrow> (event list \<times> unit outcome) option" where
  "tracking_job_progress get_job_progress job_id =
     (case tracking_job_progress_loop get_job_progress job_id 0 [] of
        None \<Rightarrow> None
      | Some (tr, Exit code) \<Rightarrow> Some (tr, Exit code)
      | Some (tr, Return u) \<Rightarrow> Some (tr @ [Print [''Job done'']], Return ()))"

subsection \<open>Runs that may exit\<close>

text \<open>
  A run of a piece of the script is the trace it leaves and its outcome. \<open>and_then\<close>
  puts two pieces in sequence: after \<open>exit\<close> nothing more is run; otherwise the second
  piece gets the value of the first, and the traces follow each other.
\<close>

type_synonym 'a run = "event list \<times> 'a outcome"

definition and_then :: "'a run \<Rightarrow> ('a \<Rightarrow> 'b run) \<Rightarrow> 'b run" where
  "and_then r f =
     (case r of
        (tr, Exit code) \<Rightarrow> (tr, Exit code)
      | (tr, Return x) \<Rightarrow> (case f x of (tr', out) \<Rightarrow> (tr @ tr', out)))"

subsection \<open>upload\_data\<close>

text \<open>
  The answers of the outside world to upload\_data. Each call site of the function is
  run at most once, so the world is the answer it gives at each: whether the references
  file exists (line 59), the result of loading it and the entries the table holds after
  a load that succeeded (line 61), the results of the two uploads (lines 71 and 89) and
  of the two saves (lines 85 and 101).
\<close>

record upload_env =
  isfile :: bool
  load_ret :: "bool ReturnValue"
  loaded :: ReferenceTable
  upload_reality_data_ret :: "string ReturnValue"
  upload_ccorientation_ret :: "string ReturnValue"
  save_ret_1 :: "bool ReturnValue"
  save_ret_2 :: "bool ReturnValue"

text \<open>\<open>os.path.join\<close> for two components, as posixpath does it.\<close>

definition os_path_join :: "string \<Rightarrow> string \<Rightarrow> string" where
  "os_path_join a b =
     (if b \<noteq> [] \<and> hd b = CHR ''/'' then b
      else if a = [] \<or> last a = CHR ''/'' then a @ b
      else a @ ''/'' @ b)"

text \<open>
  Lines 57 to 64: a new table, loaded from the references file if there is one. The run
  returns the table.
\<close>

definition load_references :: "upload_env \<Rightarrow> string \<Rightarrow> ReferenceTable run" where
  "load_references env references_path =
     (let references = Map.empty
      in if isfile env
         then
           let tr = [Print [''Loading preexistent references''], Load references_path];
               ret = load_ret env
           in if is_error ret
              then (tr @ [Print [''Error while loading preexisting references:'', error ret]],
                    Exit 1)
              else (tr, Return (loaded env))
         else ([], Return references))"

text \<open>Lines 67 to 83: the image collection is uploaded unless the table knows its path.\<close>

definition upload_image_collections ::
  "upload_env \<Rightarrow> string \<Rightarrow> string \<Rightarrow> string \<Rightarrow> ReferenceTable \<Rightarrow> ReferenceTable run" where
  "upload_image_collections env project_id cc_image_collections cc_image_collections_name
       references =
     (if \<not> has_local_path references cc_image_collections
      then
        let tr = [Print [''No reference to CCimage Collections found, uploading local files to cloud''],
                  UploadRealityData cc_image_collections cc_image_collections_name
                    CCImageCollection project_id];
            ret = upload_reality_data_ret env
        in if is_error ret
           then (tr @ [Print [''Error in upload:'', error ret]], Exit 1)
           else
             let tr = tr @ [AddReference cc_image_collections (ret_value ret)];
                 (references, ret) = add_reference references cc_image_collections (ret_value ret)
             in if is_error ret
                then (tr @ [Print [''Error adding reference:'', error ret]], Exit 1)
                else (tr, Return references)
      else ([], Return references))"

text \<open>
  Lines 87 to 98: the orientations are uploaded unless the table knows their path. The
  upload gets the table as an argument; it is taken to read the table only. On a failure
  of \<open>add_reference\<close> the script prints the path, not the error (line 97).
\<close>

definition upload_orientations ::
  "upload_env \<Rightarrow> string \<Rightarrow> string \<Rightarrow> string \<Rightarrow> ReferenceTable \<Rightarrow> ReferenceTable run" where
  "upload_orientations env project_id cc_orientations cc_orientations_name references =
     (if \<not> has_local_path references cc_orientations
      then
        let tr = [Print [''No reference to cc orientations found, uploading local files to cloud''],
                  UploadCCOrientation cc_orientations cc_orientations_name project_id references];
            ret = upload_ccorientation_ret env
        in if is_error ret
           then (tr @ [Print [''Error in upload:'', error ret]], Exit 1)
           else
             let tr = tr @ [AddReference cc_orientations (ret_value ret)];
                 (references, ret) = add_reference references cc_orientations (ret_value ret)
             in if is_error ret
                then (tr @ [Print [''Error adding reference:'', cc_orientations]], Exit 1)
                else (tr, Return references)
      else ([], Return references))"

text \<open>
  upload\_data (lines 54 to 106): the three pieces above in sequence, with the save of
  line 85, whose result the script drops, between the two uploads, and the save of lines
  101 to 104, whose result it checks, at the end.
\<close>

definition upload_data ::
  "upload_env \<Rightarrow> string \<Rightarrow> string \<Rightarrow> string \<Rightarrow> string \<Rightarrow> string \<Rightarrow> string \<Rightarrow> ReferenceTable run" where
  "upload_data env project_id cc_image_collections cc_orientations
       cc_image_collections_name cc_orientations_name output_path =
     (let references_path = os_path_join output_path ''test_references_python.txt''
      in
        and_then (load_references env references_path) (\<lambda>references.
        and_then (upload_image_collections env project_id cc_image_collections
                    cc_image_collections_name references) (\<lambda>references.
        and_then ([Save references_path references (save_ret_1 env)], Return ()) (\<lambda>_.
        and_then (upload_orientations env project_id cc_orientations cc_orientations_name
                    references) (\<lambda>references.
          let tr = [Save references_path references (save_ret_2 env)];
              ret = save_ret_2 env
          in if is_error ret
             then (tr @ [Print [''Error saving references:'', error ret]], Exit 1)
             else (tr @ [Print [''Checked data upload'']], Return references))))))"

subsection \<open>create\_job\_settings\<close>

text \<open>
  Modelled from the spec: CCJobQuality and CCJobSettings of reality\_apis.CCS.ccs\_utils are
  not among the sources. The settings have the three fields the script assigns. The
  outputs object is its attribute dictionary: the list of the attribute names with their
  values, in the order of the dictionary; the value \<open>None\<close> is an output that is not
  declared.
\<close>

datatype CCJobQuality = DRAFT | MEDIUM | EXTRA

type_synonym Outputs = "(string \<times> string option) list"

record CCJobSettings =
  inputs :: "string list"
  outputs :: Outputs
  mesh_quality :: CCJobQuality


subsection \<open>download\_outputs\<close>

text \<open>
  The loop of lines 191 to 196 over the entries of \<open>output_types\<close>. \<open>download_reality_data k\<close>
  is the answer of the data transfer to the download number \<open>k\<close> (counted from 0). The
  line "Downloaded" is printed after an error too.
\<close>

fun download_loop ::
  "(nat \<Rightarrow> bool ReturnValue) \<Rightarrow> string \<Rightarrow> string \<Rightarrow> Outputs \<Rightarrow> nat \<Rightarrow> event list \<Rightarrow> event list" where
  "download_loop download_reality_data output_path project_id [] k tr = tr"
| "download_loop download_reality_data output_path project_id ((output_type, None) # rest) k tr =
     download_loop download_reality_data output_path project_id rest k tr"
| "download_loop download_reality_data output_path project_id
       ((output_type, Some output_id) # rest) k tr =
     (let ret = download_reality_data k;
          tr = tr @ [DownloadRealityData output_id output_path project_id];
          tr = (if is_error ret
                then tr @ [Print [''Error while downloading '' @ output_type @ '' output:'',
                                  error ret]]
                else tr);
          tr = tr @ [PrintDownloaded output_type ret]
      in download_loop download_reality_data output_path project_id rest (Suc k) tr)"

text \<open>
  Modelled from the spec: the job properties returned by \<open>get_job_properties\<close>, of which
  the script reads the field \<open>job_settings\<close>.
\<close>

datatype CCJobProperties = CCJobProperties (job_settings: CCJobSettings)

text \<open>
  download\_outputs (lines 179 to 197). \<open>get_job_properties\<close> is the answer of the service
  to the one call of line 182. The dictionary comprehension of line 189 keeps the entries
  whose value is not \<open>None\<close>.
\<close>

definition download_outputs ::
  "(nat \<Rightarrow> bool ReturnValue) \<Rightarrow> CCJobProperties ReturnValue \<Rightarrow> string \<Rightarrow> string \<Rightarrow> string \<Rightarrow>
     unit run" where
  "download_outputs download_reality_data get_job_properties project_id job_id output_path =
     (let tr = [Print [''Retrieving outputs ids''], GetJobProperties job_id];
          ret = get_job_properties
      in if is_error ret
         then (tr @ [Print [''Error while getting properties:'', error ret]], Exit 1)
         else
           let final_settings = job_settings (ret_value ret);
               tr = tr @ [Print [''Downloading outputs'']];
               output_types = filter (\<lambda>(key, v). v \<noteq> None) (outputs final_settings);
               tr = download_loop download_reality_data output_path project_id output_types 0 tr
           in (tr @ [Print [''Downloads Completed'']], Return ()))"

subsection \<open>Vocabulary for the properties of the poller\<close>

text \<open>
  The classes of states that the branches of the loop distinguish: the first branch
  (lines 157 to 162), the second branch (lines 163 to 167), the states on which the loop
  stops, and the states some branch names.
\<close>

definition is_success :: "JobState \<Rightarrow> bool" where
  "is_success s = (s = SUCCESS \<or> s = Completed \<or> s = Over)"

definition is_running :: "JobState \<Rightarrow> bool" where
  "is_running s = (s = ACTIVE \<or> s = Running)"

definition terminal :: "JobState \<Rightarrow> bool" where
  "terminal s = (is_success s \<or> s = CANCELLED \<or> s = FAILED)"

definition handled :: "JobState \<Rightarrow> bool" where
  "handled s = (terminal s \<or> is_running s)"

text \<open>
  The events of one cycle that does not stop: the query, the progress line if the
  snapshot is running, and the sleep. \<open>polled svc job_id k n\<close> is the trace of the \<open>n\<close>
  cycles that start with the query number \<open>k\<close>.
\<close>

definition cycle_events :: "string \<Rightarrow> JobProgress \<Rightarrow> event list" where
  "cycle_events job_id p =
     GetJobProgress job_id #
     (if is_running (state p) then [PrintProgress (progress p) (step p)] else []) @ [Sleep 60]"

definition polled ::
  "(nat \<Rightarrow> JobProgress ReturnValue) \<Rightarrow> string \<Rightarrow> nat \<Rightarrow> nat \<Rightarrow> event list" where
  "polled svc job_id k n = concat (map (\<lambda>i. cycle_events job_id (ret_value (svc i))) [k..<k + n])"

text \<open>Counting the status queries, the progress observations and the sleeps of a trace.\<close>

fun is_query :: "event \<Rightarrow> bool" where
  "is_query (GetJobProgress j) = True"
| "is_query _ = False"

fun is_observation :: "event \<Rightarrow> bool" where
  "is_observation (PrintProgress p s) = True"
| "is_observation _ = False"

fun is_sleep :: "event \<Rightarrow> bool" where
  "is_sleep (Sleep d) = True"
| "is_sleep _ = False"

definition status_queries :: "event list \<Rightarrow> nat" where
  "status_queries tr = length (filter is_query tr)"

definition progress_observations :: "event list \<Rightarrow> nat" where
  "progress_observations tr = length (filter is_observation tr)"

definition sleeps :: "event list \<Rightarrow> nat" where
  "sleeps tr = length (filter is_sleep tr)"

text \<open>
  A stub of the status query for tests: it answers with the elements of a list, in
  order, and with an error once the list is used up.
\<close>

definition stub :: "JobProgress ReturnValue list \<Rightarrow> nat \<Rightarrow> JobProgress ReturnValue" where
  "stub answers k =
     (if k < length answers then answers ! k
      else ReturnValue (JobProgress (OtherState ''none'') 0 []) ''stub used up'')"

definition snapshot :: "JobState \<Rightarrow> int \<Rightarrow> string \<Rightarrow> JobProgress ReturnValue" where
  "snapshot s p t = ReturnValue (JobProgress s p t) []"

text \<open>
  Two raw states are of the same class when they are equal, or both taken by the first
  branch of the loop, or both taken by the second branch. Two answers of the service are
  alike when they differ at most in the raw state, within its class.
\<close>

definition same_class :: "JobState \<Rightarrow> JobState \<Rightarrow> bool" where
  "same_class s s' = (s = s' \<or> (is_success s \<and> is_success s') \<or> (is_running s \<and> is_running s'))"

definition same_answer :: "JobProgress ReturnValue \<Rightarrow> JobProgress ReturnValue \<Rightarrow> bool" where
  "same_answer r r' =
     (error r = error r' \<and> progress (ret_value r) = progress (ret_value r')
      \<and> step (ret_value r) = step (ret_value r')
      \<and> same_class (state (ret_value r)) (state (ret_value r')))"

text \<open>A service that gives the same answer to every query.\<close>

definition always :: "JobProgress ReturnValue \<Rightarrow> nat \<Rightarrow> JobProgress ReturnValue" where
  "always r k = r"

subsection \<open>Vocabulary for the properties of the output collection\<close>

text \<open>
  The declared outputs: the entries of the outputs dictionary whose identifier is
  present, in the order of the dictionary, as pairs of output type and identifier.
\<close>

fun declared :: "Outputs \<Rightarrow> (string \<times> string) list" where
  "declared [] = []"
| "declared ((output_type, None) # rest) = declared rest"
| "declared ((output_type, Some output_id) # rest) = (output_type, output_id) # declared rest"

fun is_download :: "event \<Rightarrow> bool" where
  "is_download (DownloadRealityData i d p) = True"
| "is_download _ = False"

text \<open>A stub of the download for tests, like the stub of the status query.\<close>

definition download_stub :: "bool ReturnValue list \<Rightarrow> nat \<Rightarrow> bool ReturnValue" where
  "download_stub answers k =
     (if k < length answers then answers ! k else ReturnValue False ''stub used up'')"

subsection \<open>Vocabulary for the properties of the upload\<close>


fun is_table_write :: "event \<Rightarrow> bool" where
  "is_table_write (AddReference p c) = True"
| "is_table_write (Save path t r) = True"
| "is_table_write _ = False"


definition upload_fails :: upload_env where
  "upload_fails =
     \<lparr>isfile = False, load_ret = ReturnValue True [], loaded = Map.empty,
      upload_reality_data_ret = ReturnValue [] ''connection lost'',
      upload_ccorientation_ret = ReturnValue ''cloud-9'' [],
      save_ret_1 = ReturnValue True [], save_ret_2 = ReturnValue True []\<rparr>"

definition first_save_fails :: upload_env where
  "first_save_fails =
     \<lparr>isfile = False, load_ret = ReturnValue True [], loaded = Map.empty,
      upload_reality_data_ret = ReturnValue ''cloud-8'' [],
      upload_ccorientation_ret = ReturnValue ''cloud-9'' [],
      save_ret_1 = ReturnValue False ''disk full'', save_ret_2 = ReturnValue True []\<rparr>"

section \<open>Properties\<close>

subsection \<open>The cycles of the poller\<close>

lemma loop_error:
  "is_error (svc k) \<Longrightarrow>
   tracking_job_progress_loop svc job k tr =
     Some (tr @ [GetJobProgress job, Print [''Error while getting progress:'', error (svc k)]], Exit 1)"
  by (subst tracking_job_progress_loop.simps) (simp add: Let_def)

lemma loop_success:
  "\<not> is_error (svc k) \<Longrightarrow> is_success (state (ret_value (svc k))) \<Longrightarrow>
   tracking_job_progress_loop svc job k tr = Some (tr @ [GetJobProgress job], Return ())"
  by (subst tracking_job_progress_loop.simps) (simp add: Let_def is_success_def)

lemma loop_cancelled:
  "\<not> is_error (svc k) \<Longrightarrow> state (ret_value (svc k)) = CANCELLED \<Longrightarrow>
   tracking_job_progress_loop svc job k tr =
     Some (tr @ [GetJobProgress job, Print [''Job cancelled'']], Exit 0)"
  by (subst tracking_job_progress_loop.simps) (simp add: Let_def)

lemma loop_failed:
  "\<not> is_error (svc k) \<Longrightarrow> state (ret_value (svc k)) = FAILED \<Longrightarrow>
   tracking_job_progress_loop svc job k tr =
     Some (tr @ [GetJobProgress job, Print [''Job Failed''],
                 PrintProgress (progress (ret_value (svc k))) (step (ret_value (svc k)))], Exit 1)"
  by (subst tracking_job_progress_loop.simps) (simp add: Let_def)

lemma loop_cycle:
  "\<not> is_error (svc k) \<Longrightarrow> \<not> terminal (state (ret_value (svc k))) \<Longrightarrow>
   tracking_job_progress_loop svc job k tr =
     tracking_job_progress_loop svc job (Suc k) (tr @ cycle_events job (ret_value (svc k)))"
  by (subst tracking_job_progress_loop.simps)
     (auto simp add: Let_def terminal_def is_success_def is_running_def cycle_events_def)

lemma polled_0: "polled svc job k 0 = []"
  by (simp add: polled_def)

lemma polled_Suc:
  "polled svc job k (Suc n) = cycle_events job (ret_value (svc k)) @ polled svc job (Suc k) n"
  by (simp add: polled_def upt_conv_Cons del: upt_Suc)

lemma loop_cycles:
  "(\<And>i. i < n \<Longrightarrow> \<not> is_error (svc (k + i)) \<and> \<not> terminal (state (ret_value (svc (k + i))))) \<Longrightarrow>
   tracking_job_progress_loop svc job k tr =
     tracking_job_progress_loop svc job (k + n) (tr @ polled svc job k n)"
proof (induction n arbitrary: k tr)
  case 0
  show ?case by (simp add: polled_0)
next
  case (Suc n)
  from Suc.prems [of 0] have here: "\<not> is_error (svc k)" "\<not> terminal (state (ret_value (svc k)))"
    by simp_all
  have rest: "\<And>i. i < n \<Longrightarrow>
      \<not> is_error (svc (Suc k + i)) \<and> \<not> terminal (state (ret_value (svc (Suc k + i))))"
    using Suc.prems [of "Suc _"] by simp
  show ?case
    using Suc.IH [OF rest] loop_cycle [of svc k job tr, OF here] by (simp add: polled_Suc)
qed

lemma status_queries_polled: "status_queries (polled svc job k n) = n"
  by (induction n arbitrary: k) (simp_all add: polled_0 polled_Suc status_queries_def cycle_events_def)

lemma sleeps_polled: "sleeps (polled svc job k n) = n"
  by (induction n arbitrary: k) (simp_all add: polled_0 polled_Suc sleeps_def cycle_events_def)

lemma observations_polled_running:
  "(\<And>i. i < n \<Longrightarrow> is_running (state (ret_value (svc (k + i))))) \<Longrightarrow>
   progress_observations (polled svc job k n) = n"
proof (induction n arbitrary: k)
  case 0
  show ?case by (simp add: polled_0 progress_observations_def)
next
  case (Suc n)
  from Suc.prems [of 0] have here: "is_running (state (ret_value (svc k)))" by simp
  have rest: "\<And>i. i < n \<Longrightarrow> is_running (state (ret_value (svc (Suc k + i))))"
    using Suc.prems [of "Suc _"] by simp
  show ?case
    using Suc.IH [OF rest] here
    by (simp add: polled_Suc progress_observations_def cycle_events_def)
qed

lemma observations_polled_unhandled:
  "(\<And>i. i < n \<Longrightarrow> \<not> is_running (state (ret_value (svc (k + i))))) \<Longrightarrow>
   progress_observations (polled svc job k n) = 0"
proof (induction n arbitrary: k)
  case 0
  show ?case by (simp add: polled_0 progress_observations_def)
next
  case (Suc n)
  from Suc.prems [of 0] have here: "\<not> is_running (state (ret_value (svc k)))" by simp
  have rest: "\<And>i. i < n \<Longrightarrow> \<not> is_running (state (ret_value (svc (Suc k + i))))"
    using Suc.prems [of "Suc _"] by simp
  show ?case
    using Suc.IH [OF rest] here
    by (simp add: polled_Suc progress_observations_def cycle_events_def)
qed

lemma loop_Some_stops:
  assumes "tracking_job_progress_loop svc job k tr = Some y"
  shows "\<exists>i. is_error (svc i) \<or> terminal (state (ret_value (svc i)))"
proof (rule tracking_job_progress_loop.raw_induct
    [where P = "\<lambda>svc job k tr y. \<exists>i. is_error (svc i) \<or> terminal (state (ret_value (svc i)))",
      OF _ assms], goal_cases)
  case (1 loop svc job k tr y)
  show ?case
  proof (rule ccontr)
    assume n: "\<not> ?thesis"
    then have c: "\<not> is_error (svc k)" "\<not> terminal (state (ret_value (svc k)))" by auto
    from c 1(2) have "\<exists>tr'. loop svc job (Suc k) tr' = Some y"
      by (auto simp add: Let_def terminal_def is_success_def split: if_splits)
    then obtain tr' where "loop svc job (Suc k) tr' = Some y" ..
    from 1(1) [OF this] n show False by simp
  qed
qed

lemma loop_never_stops:
  assumes "\<And>i. \<not> is_error (svc i) \<and> \<not> terminal (state (ret_value (svc i)))"
  shows "tracking_job_progress_loop svc job k tr = None"
proof (cases "tracking_job_progress_loop svc job k tr")
  case None
  then show ?thesis .
next
  case (Some y)
  from loop_Some_stops [OF this] assms show ?thesis by blast
qed

lemma same_class_sym: "same_class s s' \<Longrightarrow> same_class s' s"
  by (auto simp add: same_class_def)

lemma same_answer_sym: "same_answer r r' \<Longrightarrow> same_answer r' r"
  by (auto simp add: same_answer_def dest: same_class_sym)

lemma loop_same_answers_Some:
  assumes "tracking_job_progress_loop svc job k tr = Some y"
  shows "\<forall>svc'. (\<forall>i. same_answer (svc i) (svc' i)) \<longrightarrow>
           tracking_job_progress_loop svc' job k tr = Some y"
proof (rule tracking_job_progress_loop.raw_induct
    [where P = "\<lambda>svc job k tr y. \<forall>svc'. (\<forall>i. same_answer (svc i) (svc' i)) \<longrightarrow>
           tracking_job_progress_loop svc' job k tr = Some y", OF _ assms], goal_cases)
  case (1 loop svc job k tr y)
  show ?case
  proof (intro allI impI)
    fix svc'
    assume all: "\<forall>i. same_answer (svc i) (svc' i)"
    then have sa: "same_answer (svc k) (svc' k)" by simp
    show "tracking_job_progress_loop svc' job k tr = Some y"
    proof (cases "is_error (svc k)")
      case True
      then have "is_error (svc' k)" using sa by (simp add: same_answer_def is_error_def)
      with True 1(2) sa show ?thesis
        by (simp add: loop_error same_answer_def Let_def)
    next
      case False
      then have ne: "\<not> is_error (svc' k)" using sa by (simp add: same_answer_def is_error_def)
      show ?thesis
      proof (cases "terminal (state (ret_value (svc k)))")
        case True
        then consider (s) "is_success (state (ret_value (svc k)))"
          | (c) "state (ret_value (svc k)) = CANCELLED" | (f) "state (ret_value (svc k)) = FAILED"
          by (auto simp add: terminal_def)
        then show ?thesis
        proof cases
          case s
          then have "is_success (state (ret_value (svc' k)))"
            using sa by (auto simp add: same_answer_def same_class_def is_success_def is_running_def)
          with s False ne 1(2) show ?thesis
            by (auto simp add: loop_success Let_def is_success_def)
        next
          case c
          then have "state (ret_value (svc' k)) = CANCELLED"
            using sa by (auto simp add: same_answer_def same_class_def is_success_def is_running_def)
          with c False ne 1(2) show ?thesis
            by (auto simp add: loop_cancelled Let_def)
        next
          case f
          then have "state (ret_value (svc' k)) = FAILED"
            using sa by (auto simp add: same_answer_def same_class_def is_success_def is_running_def)
          with f False ne 1(2) sa show ?thesis
            by (auto simp add: loop_failed Let_def same_answer_def)
        qed
      next
        case nt: False
        have nt': "\<not> terminal (state (ret_value (svc' k)))"
          using nt sa
          by (auto simp add: same_answer_def same_class_def terminal_def is_success_def is_running_def)
        have ce: "cycle_events job (ret_value (svc' k)) = cycle_events job (ret_value (svc k))"
          using sa nt
          by (auto simp add: same_answer_def same_class_def cycle_events_def terminal_def)
        from False nt 1(2)
        have "loop svc job (Suc k) (tr @ cycle_events job (ret_value (svc k))) = Some y"
          by (auto simp add: Let_def terminal_def is_success_def is_running_def cycle_events_def
              split: if_splits)
        from 1(1) [OF this] all show ?thesis
          using loop_cycle [of svc' k job tr, OF ne nt'] ce by simp
      qed
    qed
  qed
qed

lemma loop_same_answers:
  assumes "\<And>i. same_answer (svc i) (svc' i)"
  shows "tracking_job_progress_loop svc job k tr = tracking_job_progress_loop svc' job k tr"
proof (cases "tracking_job_progress_loop svc job k tr")
  case (Some y)
  from loop_same_answers_Some [OF this] assms Some show ?thesis by simp
next
  case None
  show ?thesis
  proof (cases "tracking_job_progress_loop svc' job k tr")
    case (Some y)
    have "\<And>i. same_answer (svc' i) (svc i)" using assms by (rule same_answer_sym)
    from loop_same_answers_Some [OF Some] this None show ?thesis by simp
  next
    case n: None
    with None show ?thesis by simp
  qed
qed

lemma polled_cong:
  assumes "\<And>i. k \<le> i \<Longrightarrow> i < k + n \<Longrightarrow> svc i = svc' i"
  shows "polled svc job k n = polled svc' job k n"
proof -
  have "map (\<lambda>i. cycle_events job (ret_value (svc i))) [k..<k + n] =
        map (\<lambda>i. cycle_events job (ret_value (svc' i))) [k..<k + n]"
    by (rule map_cong) (simp_all add: assms)
  then show ?thesis unfolding polled_def by (rule arg_cong)
qed

lemma status_queries_simps:
  "status_queries [] = 0"
  "status_queries (e # tr) = (if is_query e then 1 else 0) + status_queries tr"
  "status_queries (tr @ tr') = status_queries tr + status_queries tr'"
  by (simp_all add: status_queries_def)

lemma progress_observations_simps:
  "progress_observations [] = 0"
  "progress_observations (e # tr) = (if is_observation e then 1 else 0) + progress_observations tr"
  "progress_observations (tr @ tr') = progress_observations tr + progress_observations tr'"
  by (simp_all add: progress_observations_def)

lemma sleeps_simps:
  "sleeps [] = 0"
  "sleeps (e # tr) = (if is_sleep e then 1 else 0) + sleeps tr"
  "sleeps (tr @ tr') = sleeps tr + sleeps tr'"
  by (simp_all add: sleeps_def)

lemma running_not_terminal: "is_running s \<Longrightarrow> \<not> terminal s"
  by (auto simp add: is_running_def terminal_def is_success_def)

lemma unhandled_cycle_events:
  "\<not> handled (state p) \<Longrightarrow> cycle_events job p = [GetJobProgress job, Sleep 60]"
  by (simp add: cycle_events_def handled_def)

lemma track_from_loop:
  "tracking_job_progress_loop svc job 0 [] = Some (tr, Exit c) \<Longrightarrow>
   tracking_job_progress svc job = Some (tr, Exit c)"
  "tracking_job_progress_loop svc job 0 [] = Some (tr, Return u) \<Longrightarrow>
   tracking_job_progress svc job = Some (tr @ [Print [''Job done'']], Return ())"
  "tracking_job_progress_loop svc job 0 [] = None \<Longrightarrow> tracking_job_progress svc job = None"
  by (simp_all add: tracking_job_progress_def)

lemma loop_prefix:
  assumes "\<forall>i<n. \<not> is_error (svc i) \<and> \<not> terminal (state (ret_value (svc i)))"
  shows "tracking_job_progress_loop svc job 0 [] =
         tracking_job_progress_loop svc job n (polled svc job 0 n)"
  using loop_cycles [of n svc 0 job "[]"] assms by simp

lemma stub_simps:
  "stub (a # as) 0 = a"
  "stub (a # as) (Suc k) = stub as k"
  "stub [] k = ReturnValue (JobProgress (OtherState ''none'') 0 []) ''stub used up''"
  by (simp_all add: stub_def)


subsection \<open>Running snapshots followed by a terminal snapshot\<close>

text \<open>
  Claim C2, as amended. When the service answers the first \<open>n\<close> queries with running
  snapshots (ACTIVE or Running) and the next one with a terminal snapshot, the poller
  returns: it has made exactly \<open>n + 1\<close> status queries, one per cycle, and slept \<open>n\<close>
  times, so it stops on the first terminal state and asks nothing afterwards. It has
  printed \<open>n\<close> progress lines when the terminal state is a success state or CANCELLED,
  and \<open>n + 1\<close> when it is FAILED, whose snapshot is printed as a last progress line. The
  outcome is a normal return on a success state, \<open>exit(0)\<close> on CANCELLED and \<open>exit(1)\<close>
  on FAILED.
\<close>

theorem poller_running_then_terminal:
  assumes running: "\<forall>i<n. \<not> is_error (svc i) \<and> is_running (state (ret_value (svc i)))"
    and answered: "\<not> is_error (svc n)"
    and stops: "terminal (state (ret_value (svc n)))"
  shows "\<exists>tr out. tracking_job_progress svc job = Some (tr, out)
           \<and> status_queries tr = n + 1
           \<and> sleeps tr = n
           \<and> progress_observations tr = (if state (ret_value (svc n)) = FAILED then n + 1 else n)
           \<and> out = (if is_success (state (ret_value (svc n))) then Return ()
                    else if state (ret_value (svc n)) = CANCELLED then Exit 0 else Exit 1)"
proof -
  have before: "\<forall>i<n. \<not> is_error (svc i) \<and> \<not> terminal (state (ret_value (svc i)))"
    using running by (simp add: running_not_terminal)
  have obs: "progress_observations (polled svc job 0 n) = n"
    using running by (simp add: observations_polled_running)
  note pre = loop_prefix [OF before, of job]
  from stops consider (s) "is_success (state (ret_value (svc n)))"
    | (c) "state (ret_value (svc n)) = CANCELLED" | (f) "state (ret_value (svc n)) = FAILED"
    by (auto simp add: terminal_def)
  then show ?thesis
  proof cases
    case s
    have "tracking_job_progress svc job =
        Some (polled svc job 0 n @ [GetJobProgress job] @ [Print [''Job done'']], Return ())"
      using pre loop_success [of svc n job "polled svc job 0 n", OF answered s]
      by (simp add: track_from_loop)
    moreover have "state (ret_value (svc n)) \<noteq> FAILED"
      using s by (auto simp add: is_success_def)
    ultimately show ?thesis
      using s obs
      by (simp add: status_queries_simps sleeps_simps progress_observations_simps
          status_queries_polled sleeps_polled)
  next
    case c
    have "tracking_job_progress svc job =
        Some (polled svc job 0 n @ [GetJobProgress job, Print [''Job cancelled'']], Exit 0)"
      using pre loop_cancelled [of svc n job "polled svc job 0 n", OF answered c]
      by (simp add: track_from_loop)
    then show ?thesis
      using c obs
      by (simp add: status_queries_simps sleeps_simps progress_observations_simps
          status_queries_polled sleeps_polled is_success_def)
  next
    case f
    have "tracking_job_progress svc job =
        Some (polled svc job 0 n @ [GetJobProgress job, Print [''Job Failed''],
          PrintProgress (progress (ret_value (svc n))) (step (ret_value (svc n)))], Exit 1)"
      using pre loop_failed [of svc n job "polled svc job 0 n", OF answered f]
      by (simp add: track_from_loop)
    then show ?thesis
      using f obs
      by (simp add: status_queries_simps sleeps_simps progress_observations_simps
          status_queries_polled sleeps_polled is_success_def)
  qed
qed

text \<open>
  The theorem at the stub sequence Running, ACTIVE, SUCCESS: three queries, two sleeps,
  two progress lines, and a normal return.
\<close>

theorem poller_running_then_terminal_witness:
  "\<exists>tr out. tracking_job_progress
       (stub [snapshot Running 10 ''AT'', snapshot ACTIVE 55 ''Reconstruction'',
              snapshot SUCCESS 100 ''Done'']) ''job-1'' = Some (tr, out)
     \<and> status_queries tr = 3 \<and> sleeps tr = 2 \<and> progress_observations tr = 2 \<and> out = Return ()"
proof -
  let ?svc = "stub [snapshot Running 10 ''AT'', snapshot ACTIVE 55 ''Reconstruction'',
              snapshot SUCCESS 100 ''Done'']"
  have two: "(2::nat) = Suc (Suc 0)" by simp
  have h1: "\<forall>i<2. \<not> is_error (?svc i) \<and> is_running (state (ret_value (?svc i)))"
    by (simp add: two less_Suc_eq stub_simps snapshot_def is_error_def is_running_def)
  have h2: "\<not> is_error (?svc 2)"
    by (simp add: two stub_simps snapshot_def is_error_def)
  have h3: "terminal (state (ret_value (?svc 2)))"
    by (simp add: two stub_simps snapshot_def terminal_def is_success_def)
  have s: "state (ret_value (?svc 2)) = SUCCESS"
    by (simp add: two stub_simps snapshot_def)
  show ?thesis
    using poller_running_then_terminal [OF h1 h2 h3, of "''job-1''"]
    by (simp add: s is_success_def)
qed

text \<open>
  Claim C2 as it was stated asks for exactly \<open>n\<close> progress observations whatever the
  terminal state. For the stub sequence Running, FAILED (\<open>n = 1\<close>) the poller prints two
  progress lines: one for the running snapshot, one for the FAILED snapshot.
\<close>

theorem poller_observations_counterexample:
  "tracking_job_progress
       (stub [snapshot Running 40 ''Tiling'', snapshot FAILED 45 ''Tiling'']) ''job-1'' =
     Some ([GetJobProgress ''job-1'', PrintProgress 40 ''Tiling'', Sleep 60,
            GetJobProgress ''job-1'', Print [''Job Failed''], PrintProgress 45 ''Tiling''], Exit 1)
   \<and> progress_observations
        [GetJobProgress ''job-1'', PrintProgress 40 ''Tiling'', Sleep 60,
         GetJobProgress ''job-1'', Print [''Job Failed''], PrintProgress 45 ''Tiling''] = 2"
proof -
  let ?svc = "stub [snapshot Running 40 ''Tiling'', snapshot FAILED 45 ''Tiling'']"
  have c0: "\<not> is_error (?svc 0)" "\<not> terminal (state (ret_value (?svc 0)))"
    by (simp_all add: stub_simps snapshot_def is_error_def terminal_def is_success_def)
  have c1: "\<not> is_error (?svc (Suc 0))" "state (ret_value (?svc (Suc 0))) = FAILED"
    by (simp_all add: stub_simps snapshot_def is_error_def)
  have "tracking_job_progress_loop ?svc ''job-1'' 0 [] =
     Some ([GetJobProgress ''job-1'', PrintProgress 40 ''Tiling'', Sleep 60,
            GetJobProgress ''job-1'', Print [''Job Failed''], PrintProgress 45 ''Tiling''], Exit 1)"
    using loop_cycle [of ?svc 0 "''job-1''" "[]", OF c0]
      loop_failed [of ?svc "Suc 0" "''job-1''" "cycle_events ''job-1'' (ret_value (?svc 0))", OF c1]
    by (simp add: cycle_events_def stub_simps snapshot_def is_running_def)
  then show ?thesis
    by (simp add: track_from_loop progress_observations_simps)
qed

subsection \<open>The terminal answers and the query error\<close>

text \<open>
  In the three theorems of this subsection the answers before the query number \<open>n\<close> are
  any answers on which the loop goes on: no error, and a state that is not terminal.
  The trace of those \<open>n\<close> cycles, \<open>polled svc job 0 n\<close>, holds \<open>n\<close> queries and \<open>n\<close>
  sleeps.
\<close>

text \<open>
  Claim C3. When a poll returns a snapshot in the FAILED state, the poller prints
  "Job Failed" and one last progress line with the percent and the step of that very
  snapshot, and then leaves with \<open>exit(1)\<close>, the failure outcome of the script. Nothing
  follows the progress line: no further status query is made.
\<close>

theorem poller_failed:
  assumes before: "\<forall>i<n. \<not> is_error (svc i) \<and> \<not> terminal (state (ret_value (svc i)))"
    and answered: "\<not> is_error (svc n)"
    and failed: "state (ret_value (svc n)) = FAILED"
  shows "tracking_job_progress svc job =
           Some (polled svc job 0 n @
                 [GetJobProgress job, Print [''Job Failed''],
                  PrintProgress (progress (ret_value (svc n))) (step (ret_value (svc n)))],
                 Exit 1)
         \<and> status_queries (polled svc job 0 n) = n"
  using loop_prefix [OF before, of job]
    loop_failed [of svc n job "polled svc job 0 n", OF answered failed]
  by (simp add: track_from_loop status_queries_polled)

text \<open>The theorem at the stub sequence Running, FAILED.\<close>

theorem poller_failed_witness:
  "tracking_job_progress
       (stub [snapshot Running 40 ''Tiling'', snapshot FAILED 45 ''Tiling'']) ''job-1'' =
     Some ([GetJobProgress ''job-1'', PrintProgress 40 ''Tiling'', Sleep 60,
            GetJobProgress ''job-1'', Print [''Job Failed''], PrintProgress 45 ''Tiling''], Exit 1)"
proof -
  let ?svc = "stub [snapshot Running 40 ''Tiling'', snapshot FAILED 45 ''Tiling'']"
  have h1: "\<forall>i<Suc 0. \<not> is_error (?svc i) \<and> \<not> terminal (state (ret_value (?svc i)))"
    by (simp add: stub_simps snapshot_def is_error_def terminal_def is_success_def)
  have h2: "\<not> is_error (?svc (Suc 0))"
    by (simp add: stub_simps snapshot_def is_error_def)
  have h3: "state (ret_value (?svc (Suc 0))) = FAILED"
    by (simp add: stub_simps snapshot_def)
  show ?thesis
    using poller_failed [OF h1 h2 h3, of "''job-1''"]
    by (simp add: polled_Suc polled_0 cycle_events_def stub_simps snapshot_def is_running_def)
qed

text \<open>
  Claim C4. When a poll returns a snapshot in the CANCELLED state, the poller prints
  "Job cancelled" and leaves with \<open>exit(0)\<close>, which is not an error status, and makes
  no further status query. The outcome differs from the one for FAILED: had the same
  poll returned a FAILED snapshot, the run would have ended with \<open>exit(1)\<close>.
\<close>

theorem poller_cancelled:
  assumes before: "\<forall>i<n. \<not> is_error (svc i) \<and> \<not> terminal (state (ret_value (svc i)))"
    and answered: "\<not> is_error (svc n)"
    and cancelled: "state (ret_value (svc n)) = CANCELLED"
  shows "tracking_job_progress svc job =
           Some (polled svc job 0 n @ [GetJobProgress job, Print [''Job cancelled'']], Exit 0)
         \<and> status_queries (polled svc job 0 n) = n
         \<and> tracking_job_progress (svc(n := snapshot FAILED p s)) job =
           Some (polled svc job 0 n @
                 [GetJobProgress job, Print [''Job Failed''], PrintProgress p s], Exit 1)"
proof -
  let ?svc' = "svc(n := snapshot FAILED p s)"
  have before': "\<forall>i<n. \<not> is_error (?svc' i) \<and> \<not> terminal (state (ret_value (?svc' i)))"
    using before by simp
  have a': "\<not> is_error (?svc' n)" "state (ret_value (?svc' n)) = FAILED"
    by (simp_all add: snapshot_def is_error_def)
  have same: "polled ?svc' job 0 n = polled svc job 0 n"
    by (rule polled_cong) simp
  have v: "progress (ret_value (?svc' n)) = p" "step (ret_value (?svc' n)) = s"
    by (simp_all add: snapshot_def)
  have "tracking_job_progress_loop ?svc' job 0 [] =
        tracking_job_progress_loop ?svc' job n (polled ?svc' job 0 n)"
    by (rule loop_prefix [OF before'])
  also have "\<dots> = Some (polled ?svc' job 0 n @
      [GetJobProgress job, Print [''Job Failed''],
       PrintProgress (progress (ret_value (?svc' n))) (step (ret_value (?svc' n)))], Exit 1)"
    by (rule loop_failed [of ?svc' n job "polled ?svc' job 0 n", OF a'])
  finally have "tracking_job_progress ?svc' job = Some (polled ?svc' job 0 n @
      [GetJobProgress job, Print [''Job Failed''],
       PrintProgress (progress (ret_value (?svc' n))) (step (ret_value (?svc' n)))], Exit 1)"
    by (rule track_from_loop(1))
  then have failed': "tracking_job_progress ?svc' job =
      Some (polled svc job 0 n @ [GetJobProgress job, Print [''Job Failed''], PrintProgress p s], Exit 1)"
    unfolding same v .
  have "tracking_job_progress svc job =
      Some (polled svc job 0 n @ [GetJobProgress job, Print [''Job cancelled'']], Exit 0)"
    using loop_prefix [OF before, of job]
      loop_cancelled [of svc n job "polled svc job 0 n", OF answered cancelled]
    by (simp add: track_from_loop)
  with failed' show ?thesis
    by (simp only: status_queries_polled simp_thms)
qed

text \<open>The theorem at the stub sequence CANCELLED, and at the same stub answering FAILED.\<close>

theorem poller_cancelled_witness:
  "tracking_job_progress (stub [snapshot CANCELLED 30 ''AT'']) ''job-1'' =
     Some ([GetJobProgress ''job-1'', Print [''Job cancelled'']], Exit 0)
   \<and> tracking_job_progress ((stub [snapshot CANCELLED 30 ''AT''])(0 := snapshot FAILED 30 ''AT''))
       ''job-1'' =
     Some ([GetJobProgress ''job-1'', Print [''Job Failed''], PrintProgress 30 ''AT''], Exit 1)"
proof -
  let ?svc = "stub [snapshot CANCELLED 30 ''AT'']"
  have h1: "\<forall>i<0. \<not> is_error (?svc i) \<and> \<not> terminal (state (ret_value (?svc i)))"
    by simp
  have h2: "\<not> is_error (?svc 0)"
    by (simp add: stub_simps snapshot_def is_error_def)
  have h3: "state (ret_value (?svc 0)) = CANCELLED"
    by (simp add: stub_simps snapshot_def)
  show ?thesis
    using poller_cancelled [OF h1 h2 h3, of "''job-1''" 30 "''AT''"]
    by (simp add: polled_0)
qed

text \<open>
  Claim C5. When a status query returns an error, the poller prints the error and leaves
  with \<open>exit(1)\<close> at once: the failing query is the last event but the print, so there is
  no retry, no further query, and no sleep after the failing query.
\<close>

theorem poller_query_error:
  assumes before: "\<forall>i<n. \<not> is_error (svc i) \<and> \<not> terminal (state (ret_value (svc i)))"
    and failing: "is_error (svc n)"
  shows "tracking_job_progress svc job =
           Some (polled svc job 0 n @
                 [GetJobProgress job, Print [''Error while getting progress:'', error (svc n)]],
                 Exit 1)
         \<and> status_queries (polled svc job 0 n) = n
         \<and> sleeps (polled svc job 0 n) = n"
  using loop_prefix [OF before, of job]
    loop_error [of svc n job "polled svc job 0 n", OF failing]
  by (simp add: track_from_loop status_queries_polled sleeps_polled)

text \<open>
  The theorem at a stub whose second answer is an error: the third answer, a success, is
  never asked for.
\<close>

theorem poller_query_error_witness:
  "tracking_job_progress
       (stub [snapshot Running 40 ''Tiling'',
              ReturnValue (JobProgress (OtherState ''none'') 0 []) ''connection reset'',
              snapshot SUCCESS 100 ''Done'']) ''job-1'' =
     Some ([GetJobProgress ''job-1'', PrintProgress 40 ''Tiling'', Sleep 60,
            GetJobProgress ''job-1'',
            Print [''Error while getting progress:'', ''connection reset'']], Exit 1)"
proof -
  let ?svc = "stub [snapshot Running 40 ''Tiling'',
              ReturnValue (JobProgress (OtherState ''none'') 0 []) ''connection reset'',
              snapshot SUCCESS 100 ''Done'']"
  have h1: "\<forall>i<Suc 0. \<not> is_error (?svc i) \<and> \<not> terminal (state (ret_value (?svc i)))"
    by (simp add: stub_simps snapshot_def is_error_def terminal_def is_success_def)
  have h2: "is_error (?svc (Suc 0))"
    by (simp add: stub_simps is_error_def)
  show ?thesis
    using poller_query_error [OF h1 h2, of "''job-1''"]
    by (simp add: polled_Suc polled_0 cycle_events_def stub_simps snapshot_def is_running_def)
qed

subsection \<open>The classes of raw states\<close>

lemma always_answers:
  "\<not> is_error (always (snapshot st p s) k)"
  "state (ret_value (always (snapshot st p s) k)) = st"
  "progress (ret_value (always (snapshot st p s) k)) = p"
  "step (ret_value (always (snapshot st p s) k)) = s"
  by (simp_all add: always_def snapshot_def is_error_def)

lemma snapshot_answer:
  "\<not> is_error (snapshot st p s)"
  "state (ret_value (snapshot st p s)) = st"
  "progress (ret_value (snapshot st p s)) = p"
  "step (ret_value (snapshot st p s)) = s"
  by (simp_all add: snapshot_def is_error_def)

lemma polled_unhandled:
  "(\<And>i. i < n \<Longrightarrow> \<not> handled (state (ret_value (svc (k + i))))) \<Longrightarrow>
   polled svc job k n = concat (replicate n [GetJobProgress job, Sleep 60])"
proof (induction n arbitrary: k)
  case 0
  show ?case by (simp add: polled_0)
next
  case (Suc n)
  from Suc.prems [of 0] have here: "\<not> handled (state (ret_value (svc k)))" by simp
  have rest: "\<And>i. i < n \<Longrightarrow> \<not> handled (state (ret_value (svc (Suc k + i))))"
    using Suc.prems [of "Suc _"] by simp
  show ?case
    using Suc.IH [OF rest] here by (simp add: polled_Suc unhandled_cycle_events)
qed

lemma run_one_success:
  assumes "is_success st"
  shows "tracking_job_progress (stub (snapshot st p s # rest)) job =
         Some ([GetJobProgress job, Print [''Job done'']], Return ())"
proof -
  have "tracking_job_progress_loop (stub (snapshot st p s # rest)) job 0 [] =
      Some ([] @ [GetJobProgress job], Return ())"
    by (rule loop_success) (simp_all add: stub_simps snapshot_answer assms)
  then show ?thesis by (simp add: track_from_loop)
qed

lemma run_cycle_then_success:
  assumes nt: "\<not> terminal st'" and su: "is_success st"
  shows "tracking_job_progress (stub (snapshot st' p s # snapshot st q t # rest)) job =
         Some (cycle_events job (JobProgress st' p s) @
               [GetJobProgress job, Print [''Job done'']], Return ())"
proof -
  let ?svc = "stub (snapshot st' p s # snapshot st q t # rest)"
  have "tracking_job_progress_loop ?svc job 0 [] =
      tracking_job_progress_loop ?svc job (Suc 0) ([] @ cycle_events job (ret_value (?svc 0)))"
    by (rule loop_cycle) (simp_all add: stub_simps snapshot_answer nt)
  also have "\<dots> = Some (([] @ cycle_events job (ret_value (?svc 0))) @ [GetJobProgress job],
      Return ())"
    by (rule loop_success) (simp_all add: stub_simps snapshot_answer su)
  finally show ?thesis
    by (simp add: track_from_loop stub_simps snapshot_def)
qed

lemma equal_runs_value:
  "tracking_job_progress
     (stub [snapshot ACTIVE 10 ''AT'', snapshot Running 20 ''AT'', snapshot Over 100 ''Done''])
     ''job-1'' =
   Some ([GetJobProgress ''job-1'', PrintProgress 10 ''AT'', Sleep 60,
          GetJobProgress ''job-1'', PrintProgress 20 ''AT'', Sleep 60,
          GetJobProgress ''job-1'', Print [''Job done'']], Return ())"
proof -
  have "tracking_job_progress_loop
     (stub [snapshot ACTIVE 10 ''AT'', snapshot Running 20 ''AT'', snapshot Over 100 ''Done''])
     ''job-1'' 0 [] =
   Some ([GetJobProgress ''job-1'', PrintProgress 10 ''AT'', Sleep 60,
          GetJobProgress ''job-1'', PrintProgress 20 ''AT'', Sleep 60,
          GetJobProgress ''job-1''], Return ())"
    by (simp add: loop_cycle loop_success stub_simps snapshot_answer terminal_def is_success_def
        cycle_events_def is_running_def)
  then show ?thesis by (simp add: track_from_loop)
qed

text \<open>
  Claim C6. The poller treats the raw states by class. Two services whose answers differ
  only in that a state is replaced by another one of its class (SUCCESS, Completed and
  Over are one class, ACTIVE and Running another, every other state is alone in its
  class) give the same run: the same trace and the same outcome, or both poll forever.
  Every success state ends the polling with a normal return after one query. Every
  running state gives a progress line with the percent and the step of the snapshot, a
  sleep, and a new query. CANCELLED and FAILED are the other two states with a branch of
  their own, and their outcomes differ from each other and from success: \<open>exit(0)\<close> and
  \<open>exit(1)\<close>. A state with no branch gives neither a progress line nor an end of the
  polling: the cycle is the query and the sleep, and the next query follows.
\<close>

theorem poller_state_classes:
  assumes alike: "\<forall>k. same_answer (svc k) (svc' k)"
    and success: "is_success st"
    and running: "is_running st'"
  shows "tracking_job_progress svc job = tracking_job_progress svc' job
       \<and> tracking_job_progress (stub [snapshot st p s]) job =
           Some ([GetJobProgress job, Print [''Job done'']], Return ())
       \<and> tracking_job_progress (stub [snapshot st' p s, snapshot st q t]) job =
           Some ([GetJobProgress job, PrintProgress p s, Sleep 60,
                  GetJobProgress job, Print [''Job done'']], Return ())
       \<and> tracking_job_progress (stub [snapshot CANCELLED p s]) job =
           Some ([GetJobProgress job, Print [''Job cancelled'']], Exit 0)
       \<and> tracking_job_progress (stub [snapshot FAILED p s]) job =
           Some ([GetJobProgress job, Print [''Job Failed''], PrintProgress p s], Exit 1)
       \<and> tracking_job_progress (stub [snapshot (OtherState x) p s, snapshot st q t]) job =
           Some ([GetJobProgress job, Sleep 60,
                  GetJobProgress job, Print [''Job done'']], Return ())"
proof -
  have "tracking_job_progress_loop svc job 0 [] = tracking_job_progress_loop svc' job 0 []"
    using alike by (simp add: loop_same_answers)
  then have eq: "tracking_job_progress svc job = tracking_job_progress svc' job"
    by (simp add: tracking_job_progress_def)
  have su: "tracking_job_progress (stub [snapshot st p s]) job =
           Some ([GetJobProgress job, Print [''Job done'']], Return ())"
    using success by (rule run_one_success)
  have ru: "tracking_job_progress (stub [snapshot st' p s, snapshot st q t]) job =
           Some ([GetJobProgress job, PrintProgress p s, Sleep 60,
                  GetJobProgress job, Print [''Job done'']], Return ())"
    using run_cycle_then_success [OF running_not_terminal [OF running] success, of p s q t "[]" job]
      running by (simp add: cycle_events_def)
  have "tracking_job_progress_loop (stub [snapshot CANCELLED p s]) job 0 [] =
      Some ([] @ [GetJobProgress job, Print [''Job cancelled'']], Exit 0)"
    by (rule loop_cancelled) (simp_all add: stub_simps snapshot_answer)
  then have ca: "tracking_job_progress (stub [snapshot CANCELLED p s]) job =
           Some ([GetJobProgress job, Print [''Job cancelled'']], Exit 0)"
    by (simp add: track_from_loop)
  have "tracking_job_progress_loop (stub [snapshot FAILED p s]) job 0 [] =
      Some ([] @ [GetJobProgress job, Print [''Job Failed''],
        PrintProgress (progress (ret_value (stub [snapshot FAILED p s] 0)))
          (step (ret_value (stub [snapshot FAILED p s] 0)))], Exit 1)"
    by (rule loop_failed) (simp_all add: stub_simps snapshot_answer)
  then have fa: "tracking_job_progress (stub [snapshot FAILED p s]) job =
           Some ([GetJobProgress job, Print [''Job Failed''], PrintProgress p s], Exit 1)"
    by (simp add: track_from_loop stub_simps snapshot_answer)
  have nt: "\<not> terminal (OtherState x)" by (simp add: terminal_def is_success_def)
  have ot: "tracking_job_progress (stub [snapshot (OtherState x) p s, snapshot st q t]) job =
           Some ([GetJobProgress job, Sleep 60,
                  GetJobProgress job, Print [''Job done'']], Return ())"
    using run_cycle_then_success [OF nt success, of p s q t "[]" job]
    by (simp add: cycle_events_def is_running_def)
  from eq su ru ca fa ot show ?thesis by (simp only: simp_thms)
qed

text \<open>
  The theorem at two stubs that answer ACTIVE, Running, Over and Running, ACTIVE,
  Completed with the same percents and steps, whose common run is three queries with two
  progress lines; at the success state Completed and at the running state Running.
\<close>

theorem poller_state_classes_witness:
  "tracking_job_progress
     (stub [snapshot ACTIVE 10 ''AT'', snapshot Running 20 ''AT'', snapshot Over 100 ''Done''])
     ''job-1'' =
   tracking_job_progress
     (stub [snapshot Running 10 ''AT'', snapshot ACTIVE 20 ''AT'', snapshot Completed 100 ''Done''])
     ''job-1''
   \<and> tracking_job_progress
     (stub [snapshot ACTIVE 10 ''AT'', snapshot Running 20 ''AT'', snapshot Over 100 ''Done''])
     ''job-1'' =
     Some ([GetJobProgress ''job-1'', PrintProgress 10 ''AT'', Sleep 60,
            GetJobProgress ''job-1'', PrintProgress 20 ''AT'', Sleep 60,
            GetJobProgress ''job-1'', Print [''Job done'']], Return ())
   \<and> tracking_job_progress (stub [snapshot Completed 10 ''AT'']) ''job-1'' =
       Some ([GetJobProgress ''job-1'', Print [''Job done'']], Return ())
   \<and> tracking_job_progress (stub [snapshot Running 10 ''AT'', snapshot Completed 100 ''Done''])
       ''job-1'' =
       Some ([GetJobProgress ''job-1'', PrintProgress 10 ''AT'', Sleep 60,
              GetJobProgress ''job-1'', Print [''Job done'']], Return ())
   \<and> tracking_job_progress (stub [snapshot (OtherState ''Pending'') 10 ''AT'',
         snapshot Completed 100 ''Done'']) ''job-1'' =
       Some ([GetJobProgress ''job-1'', Sleep 60,
              GetJobProgress ''job-1'', Print [''Job done'']], Return ())"
proof -
  let ?a = "[snapshot ACTIVE 10 ''AT'', snapshot Running 20 ''AT'', snapshot Over 100 ''Done'']"
  let ?b = "[snapshot Running 10 ''AT'', snapshot ACTIVE 20 ''AT'', snapshot Completed 100 ''Done'']"
  have "same_answer (stub ?a k) (stub ?b k)" for k
    by (simp add: stub_def snapshot_def same_answer_def same_class_def is_success_def
        is_running_def nth_Cons split: nat.splits)
  then have h: "\<forall>k. same_answer (stub ?a k) (stub ?b k)" by simp
  have s: "is_success Completed" by (simp add: is_success_def)
  have r: "is_running Running" by (simp add: is_running_def)
  show ?thesis
    using poller_state_classes [OF h s r, where job = "''job-1''" and p = 10 and s = "''AT''"
        and q = 100 and t = "''Done''" and x = "''Pending''"] equal_runs_value
    by blast
qed

subsection \<open>States without a branch\<close>

lemma polled_add:
  "polled svc job k (m + n) = polled svc job k m @ polled svc job (k + m) n"
  by (induction m arbitrary: k) (simp_all add: polled_0 polled_Suc)

text \<open>
  Claim C10. A snapshot whose state is none of SUCCESS, Completed, Over, ACTIVE,
  Running, CANCELLED, FAILED makes the poller neither print a progress line nor stop:
  the cycle consists of the query and the sleep of 60 seconds, and the loop goes on with
  the next query. So when, after \<open>m\<close> cycles of any kind, the service gives \<open>n\<close> such
  answers and then a success, the run is the trace of the \<open>m\<close> cycles, then \<open>n\<close> times
  query and sleep, then the last query and "Job done". A job that reports such states
  for ever is polled for ever: the run has no result.
\<close>

theorem unhandled_state_polled_again:
  assumes earlier: "\<forall>i<m. \<not> is_error (svc i) \<and> \<not> terminal (state (ret_value (svc i)))"
    and unhandled:
      "\<forall>i<n. \<not> is_error (svc (m + i)) \<and> \<not> handled (state (ret_value (svc (m + i))))"
  shows "(\<not> is_error (svc (m + n)) \<and> is_success (state (ret_value (svc (m + n)))) \<longrightarrow>
            tracking_job_progress svc job =
              Some (polled svc job 0 m @
                    concat (replicate n [GetJobProgress job, Sleep 60]) @
                    [GetJobProgress job, Print [''Job done'']], Return ()))
       \<and> ((\<forall>i. \<not> is_error (svc i) \<and> \<not> handled (state (ret_value (svc i)))) \<longrightarrow>
            tracking_job_progress svc job = None)"
proof (intro conjI impI)
  assume stop: "\<not> is_error (svc (m + n)) \<and> is_success (state (ret_value (svc (m + n))))"
  have before: "\<forall>i<m + n. \<not> is_error (svc i) \<and> \<not> terminal (state (ret_value (svc i)))"
  proof (intro allI impI)
    fix i assume i: "i < m + n"
    show "\<not> is_error (svc i) \<and> \<not> terminal (state (ret_value (svc i)))"
    proof (cases "i < m")
      case True
      with earlier show ?thesis by simp
    next
      case False
      with i have "i - m < n" "m + (i - m) = i" by simp_all
      with unhandled [rule_format, of "i - m"] show ?thesis by (simp add: handled_def)
    qed
  qed
  have "polled svc job m n = concat (replicate n [GetJobProgress job, Sleep 60])"
    by (rule polled_unhandled) (use unhandled in simp)
  then have tr: "polled svc job 0 (m + n) =
      polled svc job 0 m @ concat (replicate n [GetJobProgress job, Sleep 60])"
    by (simp add: polled_add)
  have "tracking_job_progress_loop svc job 0 [] =
        tracking_job_progress_loop svc job (m + n) (polled svc job 0 (m + n))"
    by (rule loop_prefix [OF before])
  also have "\<dots> = Some (polled svc job 0 (m + n) @ [GetJobProgress job], Return ())"
    by (rule loop_success) (use stop in simp_all)
  finally show "tracking_job_progress svc job =
      Some (polled svc job 0 m @ concat (replicate n [GetJobProgress job, Sleep 60]) @
            [GetJobProgress job, Print [''Job done'']], Return ())"
    by (simp add: track_from_loop tr)
next
  assume "\<forall>i. \<not> is_error (svc i) \<and> \<not> handled (state (ret_value (svc i)))"
  then have "\<And>i. \<not> is_error (svc i) \<and> \<not> terminal (state (ret_value (svc i)))"
    by (simp add: handled_def)
  then have "tracking_job_progress_loop svc job 0 [] = None"
    by (rule loop_never_stops)
  then show "tracking_job_progress svc job = None"
    by (rule track_from_loop(3))
qed

text \<open>
  The theorem at the stub sequence Running, Pending, Pending, SUCCESS, and at a service
  that always answers with the state Pending.
\<close>

theorem unhandled_state_polled_again_witness:
  "tracking_job_progress
     (stub [snapshot Running 10 ''AT'', snapshot (OtherState ''Pending'') 0 [],
            snapshot (OtherState ''Pending'') 0 [], snapshot SUCCESS 100 ''Done'']) ''job-1'' =
     Some ([GetJobProgress ''job-1'', PrintProgress 10 ''AT'', Sleep 60,
            GetJobProgress ''job-1'', Sleep 60, GetJobProgress ''job-1'', Sleep 60,
            GetJobProgress ''job-1'', Print [''Job done'']], Return ())
   \<and> tracking_job_progress (always (snapshot (OtherState ''Pending'') 0 [])) ''job-1'' = None"
proof -
  let ?svc = "stub [snapshot Running 10 ''AT'', snapshot (OtherState ''Pending'') 0 [],
            snapshot (OtherState ''Pending'') 0 [], snapshot SUCCESS 100 ''Done'']"
  let ?stuck = "always (snapshot (OtherState ''Pending'') 0 [])"
  have two: "(2::nat) = Suc (Suc 0)" by simp
  have h0: "\<forall>i<Suc 0. \<not> is_error (?svc i) \<and> \<not> terminal (state (ret_value (?svc i)))"
    by (simp add: stub_simps snapshot_answer terminal_def is_success_def)
  have h1: "\<forall>i<2. \<not> is_error (?svc (Suc 0 + i))
      \<and> \<not> handled (state (ret_value (?svc (Suc 0 + i))))"
    by (simp add: two less_Suc_eq stub_simps snapshot_answer handled_def terminal_def
        is_success_def is_running_def)
  have h2: "\<not> is_error (?svc (Suc 0 + 2)) \<and> is_success (state (ret_value (?svc (Suc 0 + 2))))"
    by (simp add: two stub_simps snapshot_answer is_success_def)
  have h3: "\<forall>i<0. \<not> is_error (?stuck i) \<and> \<not> terminal (state (ret_value (?stuck i)))"
    by simp
  have h3': "\<forall>i<0. \<not> is_error (?stuck (0 + i)) \<and> \<not> handled (state (ret_value (?stuck (0 + i))))"
    by simp
  have h4: "\<forall>i. \<not> is_error (?stuck i) \<and> \<not> handled (state (ret_value (?stuck i)))"
    by (simp add: always_answers handled_def terminal_def is_success_def is_running_def)
  have p: "polled ?svc ''job-1'' 0 (Suc 0) =
      [GetJobProgress ''job-1'', PrintProgress 10 ''AT'', Sleep 60]"
    by (simp add: polled_Suc polled_0 cycle_events_def stub_simps snapshot_answer is_running_def)
  from unhandled_state_polled_again [OF h0 h1, of "''job-1''"] h2
  have a: "tracking_job_progress ?svc ''job-1'' =
     Some ([GetJobProgress ''job-1'', PrintProgress 10 ''AT'', Sleep 60,
            GetJobProgress ''job-1'', Sleep 60, GetJobProgress ''job-1'', Sleep 60,
            GetJobProgress ''job-1'', Print [''Job done'']], Return ())"
    by (simp add: two p)
  from unhandled_state_polled_again [OF h3 h3', of "''job-1''"] h4
  have b: "tracking_job_progress ?stuck ''job-1'' = None"
    by blast
  from a b show ?thesis by (simp only: simp_thms)
qed

subsection \<open>The output collection\<close>

lemma declared_filter: "declared (filter (\<lambda>(key, v). v \<noteq> None) outs) = declared outs"
  by (induction outs rule: declared.induct) simp_all

lemma download_loop_Some:
  "download_loop dl op pid ((t, Some i) # rest) k tr =
   download_loop dl op pid rest (Suc k)
     (tr @ DownloadRealityData i op pid #
        (if is_error (dl k)
         then [Print [''Error while downloading '' @ t @ '' output:'', error (dl k)]] else []) @
        [PrintDownloaded t (dl k)])"
  by (simp add: Let_def)

lemma download_loop_downloads:
  "filter is_download (download_loop dl op pid outs k tr) =
   filter is_download tr @ map (\<lambda>(t, i). DownloadRealityData i op pid) (declared outs)"
  by (induction outs arbitrary: k tr rule: declared.induct)
     (simp_all add: download_loop_Some del: download_loop.simps(3))

lemma download_loop_grows: "set tr \<subseteq> set (download_loop dl op pid outs k tr)"
proof (induction outs arbitrary: k tr rule: declared.induct)
  case 1
  show ?case by simp
next
  case (2 t rest)
  then show ?case by simp
next
  case (3 t i rest)
  let ?tr = "tr @ DownloadRealityData i op pid #
        (if is_error (dl k)
         then [Print [''Error while downloading '' @ t @ '' output:'', error (dl k)]] else []) @
        [PrintDownloaded t (dl k)]"
  have "set tr \<subseteq> set ?tr" by auto
  also have "\<dots> \<subseteq> set (download_loop dl op pid rest (Suc k) ?tr)" by (rule 3)
  finally show ?case unfolding download_loop_Some .
qed

lemma download_loop_reports:
  "j < length (declared outs) \<Longrightarrow> is_error (dl (k + j)) \<Longrightarrow>
   Print [''Error while downloading '' @ fst (declared outs ! j) @ '' output:'', error (dl (k + j))]
     \<in> set (download_loop dl op pid outs k tr)"
proof (induction outs arbitrary: j k tr rule: declared.induct)
  case 1
  then show ?case by simp
next
  case (2 t rest)
  then show ?case by simp
next
  case (3 t i rest)
  show ?case
  proof (cases j)
    case 0
    with 3(3) have e: "is_error (dl k)" by simp
    let ?tr = "tr @ DownloadRealityData i op pid #
        (if is_error (dl k)
         then [Print [''Error while downloading '' @ t @ '' output:'', error (dl k)]] else []) @
        [PrintDownloaded t (dl k)]"
    have "Print [''Error while downloading '' @ t @ '' output:'', error (dl k)] \<in> set ?tr"
      using e by simp
    then have "Print [''Error while downloading '' @ t @ '' output:'', error (dl k)]
        \<in> set (download_loop dl op pid rest (Suc k) ?tr)"
      using download_loop_grows [of ?tr dl op pid rest "Suc k"] by blast
    with 0 show ?thesis unfolding download_loop_Some by simp
  next
    case (Suc j')
    with 3(2) have l: "j' < length (declared rest)" by simp
    from Suc 3(3) have e: "is_error (dl (Suc k + j'))" by simp
    show ?thesis
      unfolding download_loop_Some using 3(1) [OF l e] Suc by simp
  qed
qed

text \<open>
  Claim C8. When the job properties are returned, download\_outputs calls the download
  for exactly the declared outputs whose identifier is present, once each and in the
  order of the dictionary; an entry without identifier is never tried. Whatever the
  downloads answer, all of them are tried and the function returns; the error of each
  download that fails is printed with the type of its output.
\<close>

theorem outputs_downloaded:
  assumes props: "\<not> is_error props"
  shows "\<exists>tr. download_outputs dl props project_id job_id output_path = (tr, Return ())
     \<and> filter is_download tr =
         map (\<lambda>(t, i). DownloadRealityData i output_path project_id)
           (declared (outputs (job_settings (ret_value props))))
     \<and> (\<forall>j < length (declared (outputs (job_settings (ret_value props)))).
          is_error (dl j) \<longrightarrow>
          Print [''Error while downloading '' @
                   fst (declared (outputs (job_settings (ret_value props))) ! j) @ '' output:'',
                 error (dl j)] \<in> set tr)"
proof -
  let ?outs = "outputs (job_settings (ret_value props))"
  let ?types = "filter (\<lambda>(key, v). v \<noteq> None) ?outs"
  let ?start = "[Print [''Retrieving outputs ids''], GetJobProperties job_id,
               Print [''Downloading outputs'']]"
  let ?tr = "download_loop dl output_path project_id ?types 0 ?start"
  have run: "download_outputs dl props project_id job_id output_path =
      (?tr @ [Print [''Downloads Completed'']], Return ())"
    using props by (simp add: download_outputs_def Let_def)
  have "filter is_download ?tr =
      filter is_download ?start @
      map (\<lambda>(t, i). DownloadRealityData i output_path project_id) (declared ?types)"
    by (rule download_loop_downloads)
  then have "filter is_download ?tr =
      map (\<lambda>(t, i). DownloadRealityData i output_path project_id) (declared ?outs)"
    unfolding declared_filter by simp
  then have dls: "filter is_download (?tr @ [Print [''Downloads Completed'']]) =
      map (\<lambda>(t, i). DownloadRealityData i output_path project_id) (declared ?outs)"
    by simp
  have rep: "Print [''Error while downloading '' @ fst (declared ?outs ! j) @ '' output:'',
                 error (dl j)] \<in> set (?tr @ [Print [''Downloads Completed'']])"
    if j: "j < length (declared ?outs)" "is_error (dl j)" for j
  proof -
    from j have "j < length (declared ?types)" "is_error (dl (0 + j))"
      unfolding declared_filter by simp_all
    then have "Print [''Error while downloading '' @ fst (declared ?types ! j) @ '' output:'',
                 error (dl (0 + j))] \<in> set ?tr"
      by (rule download_loop_reports)
    then show ?thesis unfolding declared_filter by simp
  qed
  from run dls rep show ?thesis by blast
qed

text \<open>
  The theorem at the outputs A with id1, B without identifier, C with id3, where the
  download of id1 fails and the download of id3 succeeds.
\<close>

theorem outputs_downloaded_witness:
  "\<exists>tr. download_outputs
        (download_stub [ReturnValue False ''timeout'', ReturnValue True []])
        (ReturnValue (CCJobProperties
           \<lparr>inputs = [],
            outputs = [(''A'', Some ''id1''), (''B'', None), (''C'', Some ''id3'')],
            mesh_quality = MEDIUM\<rparr>) [])
        ''proj'' ''job-1'' ''/out'' = (tr, Return ())
     \<and> filter is_download tr =
         [DownloadRealityData ''id1'' ''/out'' ''proj'', DownloadRealityData ''id3'' ''/out'' ''proj'']
     \<and> Print [''Error while downloading A output:'', ''timeout''] \<in> set tr"
proof -
  let ?props = "ReturnValue (CCJobProperties
           \<lparr>inputs = [],
            outputs = [(''A'', Some ''id1''), (''B'', None), (''C'', Some ''id3'')],
            mesh_quality = MEDIUM\<rparr>) []"
  let ?dl = "download_stub [ReturnValue False ''timeout'', ReturnValue True []]"
  have h: "\<not> is_error ?props" by (simp add: is_error_def)
  from outputs_downloaded [OF h, of ?dl "''proj''" "''job-1''" "''/out''"]
  obtain tr where tr: "download_outputs ?dl ?props ''proj'' ''job-1'' ''/out'' = (tr, Return ())"
    "filter is_download tr =
         map (\<lambda>(t, i). DownloadRealityData i ''/out'' ''proj'')
           (declared (outputs (job_settings (ret_value ?props))))"
    "\<forall>j < length (declared (outputs (job_settings (ret_value ?props)))).
          is_error (?dl j) \<longrightarrow>
          Print [''Error while downloading '' @
                   fst (declared (outputs (job_settings (ret_value ?props))) ! j) @ '' output:'',
                 error (?dl j)] \<in> set tr"
    by blast
  from tr(3) [rule_format, of 0]
  have "Print [''Error while downloading A output:'', ''timeout''] \<in> set tr"
    by (simp add: download_stub_def is_error_def)
  moreover from tr(2) have "filter is_download tr =
         [DownloadRealityData ''id1'' ''/out'' ''proj'', DownloadRealityData ''id3'' ''/out'' ''proj'']"
    by simp
  ultimately show ?thesis using tr(1) by blast
qed

subsection \<open>The upload\<close>

lemmas upload_defs = upload_data_def and_then_def load_references_def
  upload_image_collections_def upload_orientations_def add_reference_def has_local_path_def
  Let_def




text \<open>
  Claim C7. Let the table after the load be \<open>references\<close>, and consider any run of
  upload\_data. If the image collection is not in the table and its upload fails, the run
  ends with \<open>exit(1)\<close> and holds no call of \<open>add_reference\<close> and no save. If the
  orientations are not in the table and their upload fails, the run ends with \<open>exit(1)\<close>,
  holds no call of \<open>add_reference\<close> for them, and no table that was saved knows them.
  A call of \<open>add_reference\<close> occurs only for a resource whose upload succeeded, with the
  cloud id the upload returned; and an entry of the returned table that the loaded table
  did not have was added by such a call.
\<close>

theorem failed_upload_no_reference:
  assumes start: "load_references env (os_path_join output_path ''test_references_python.txt'') =
      (tr0, Return references)"
    and run: "upload_data env project_id imgs orient imgs_name orient_name output_path = (tr, out)"
  shows "(\<not> has_local_path references imgs \<and> is_error (upload_reality_data_ret env) \<longrightarrow>
            out = Exit 1 \<and> filter is_table_write tr = [])
       \<and> (\<not> has_local_path references orient \<and> orient \<noteq> imgs
            \<and> is_error (upload_ccorientation_ret env) \<longrightarrow>
            out = Exit 1 \<and> (\<forall>c. AddReference orient c \<notin> set tr)
            \<and> (\<forall>path t r. Save path t r \<in> set tr \<longrightarrow> t orient = None))
       \<and> (\<forall>p c. AddReference p c \<in> set tr \<longrightarrow>
            (p = imgs \<and> \<not> is_error (upload_reality_data_ret env)
               \<and> c = ret_value (upload_reality_data_ret env))
          \<or> (p = orient \<and> \<not> is_error (upload_ccorientation_ret env)
               \<and> c = ret_value (upload_ccorientation_ret env)))
       \<and> (\<forall>t p c. out = Return t \<and> t p = Some c \<and> references p \<noteq> Some c \<longrightarrow>
            AddReference p c \<in> set tr)"
  using assms
  by (auto simp add: upload_defs split: if_splits prod.splits)

text \<open>
  The theorem at a world without references file in which the upload of the image
  collection fails.
\<close>

theorem failed_upload_no_reference_witness:
  "\<exists>tr. upload_data upload_fails ''proj'' ''/data/images'' ''/data/orientations''
          ''Photos'' ''cc orientations'' ''/out'' = (tr, Exit 1)
        \<and> filter is_table_write tr = []"
proof -
  obtain tr out where run: "upload_data upload_fails ''proj'' ''/data/images''
      ''/data/orientations'' ''Photos'' ''cc orientations'' ''/out'' = (tr, out)"
    by (cases "upload_data upload_fails ''proj'' ''/data/images''
      ''/data/orientations'' ''Photos'' ''cc orientations'' ''/out''")
  have start: "load_references upload_fails (os_path_join ''/out'' ''test_references_python.txt'') =
      ([], Return Map.empty)"
    by (simp add: load_references_def upload_fails_def)
  have h: "\<not> has_local_path Map.empty ''/data/images''
      \<and> is_error (upload_reality_data_ret upload_fails)"
    by (simp add: has_local_path_def upload_fails_def is_error_def)
  from failed_upload_no_reference [OF start run] h
  have "out = Exit 1 \<and> filter is_table_write tr = []" by blast
  with run show ?thesis by blast
qed

text \<open>
  Claim C9 asks that every error result of the upload phase be reported, the results of
  the saves included. The save of line 85 is called without a look at its result. In a
  world where that save fails with "disk full", upload\_data prints nothing about the
  failure and returns normally after "Checked data upload".
\<close>

theorem first_save_error_not_reported:
  "upload_data first_save_fails ''proj'' ''/data/images'' ''/data/orientations''
     ''Photos'' ''cc orientations'' ''/out'' =
   ([Print [''No reference to CCimage Collections found, uploading local files to cloud''],
     UploadRealityData ''/data/images'' ''Photos'' CCImageCollection ''proj'',
     AddReference ''/data/images'' ''cloud-8'',
     Save ''/out/test_references_python.txt'' [''/data/images'' \<mapsto> ''cloud-8'']
       (ReturnValue False ''disk full''),
     Print [''No reference to cc orientations found, uploading local files to cloud''],
     UploadCCOrientation ''/data/orientations'' ''cc orientations'' ''proj''
       [''/data/images'' \<mapsto> ''cloud-8''],
     AddReference ''/data/orientations'' ''cloud-9'',
     Save ''/out/test_references_python.txt''
       [''/data/images'' \<mapsto> ''cloud-8'', ''/data/orientations'' \<mapsto> ''cloud-9'']
       (ReturnValue True []),
     Print [''Checked data upload'']],
    Return [''/data/images'' \<mapsto> ''cloud-8'', ''/data/orientations'' \<mapsto> ''cloud-9''])"
  by (simp add: upload_defs first_save_fails_def is_error_def os_path_join_def)

end
